theory Spec2Isabelle
  imports Main "HOL-Library.AList"
begin

section \<open>Data model of \<open>api/api.go\<close>\<close>

text \<open>
  The errors the package produces or passes on. \<open>ConstraintError\<close> is the error returned
  by \<open>semver.NewConstraint\<close>, \<open>NoCompatibleVersions\<close> is
  \<open>errors.New("no compatible versions found")\<close>, \<open>NilVersionsPanic\<close> is the nil
  dereference of \<open>pkgMeta.Versions\<close> when \<open>highestCompatibleVersion\<close> is handed a nil
  pointer, the next three are the errors of \<open>http.Get\<close>, \<open>io.ReadAll\<close> and
  \<open>json.Unmarshal\<close>, and \<open>MarshalError\<close> is the error of \<open>json.MarshalIndent\<close>.
\<close>

datatype error =
    ConstraintError
  | NoCompatibleVersions
  | NilVersionsPanic
  | GetError
  | ReadError
  | UnmarshalError
  | MarshalError

text \<open>
  \<open>npmPackageResponse\<close>: a manifest as decoded from the registry. A Go map is an
  association list here; the order of the list is the order in which \<open>range\<close> happens to
  visit the entries. The nil map of the zero value and the empty map are both \<open>[]\<close>.
\<close>

record npmPackageResponse =
  resp_Name :: string
  resp_Version :: string
  resp_Dependencies :: "(string \<times> string) list"

definition zero_npmPackageResponse :: npmPackageResponse where
  "zero_npmPackageResponse =
     \<lparr>resp_Name = [], resp_Version = [], resp_Dependencies = []\<rparr>"

record npmPackageMetaResponse =
  Versions :: "(string \<times> npmPackageResponse) list"

text \<open>\<open>NpmPackageVersion\<close>: a node of the tree that is built and serialised.\<close>

datatype NpmPackageVersion =
  NpmPackageVersion (Name: string) (Version: string)
    (Dependencies: "(string \<times> NpmPackageVersion) list")

section \<open>The libraries the package calls\<close>

text \<open>
  \<open>github.com/Masterminds/semver/v3\<close> is not part of the repository; its five entry
  points used by the code are parameters. \<open>'c\<close> is \<open>*semver.Constraints\<close>, \<open>'v\<close> is
  \<open>*semver.Version\<close>; \<open>None\<close> is a returned error. \<open>LessThan\<close> is the comparison
  \<open>semver.Collection.Less\<close> sorts by, \<open>String_of\<close> is the method \<open>String\<close> of a version.
\<close>

record ('c, 'v) semver =
  NewConstraint :: "string \<Rightarrow> 'c option"
  NewVersion :: "string \<Rightarrow> 'v option"
  Check :: "'c \<Rightarrow> 'v \<Rightarrow> bool"
  LessThan :: "'v \<Rightarrow> 'v \<Rightarrow> bool"
  String_of :: "'v \<Rightarrow> string"

text \<open>
  \<open>http.Get\<close> followed by \<open>io.ReadAll\<close>: either call may fail, otherwise there is a
  body.
\<close>

datatype http_result = GetFailed | ReadFailed | Body string

text \<open>
  \<open>json.Unmarshal\<close> into a zero-valued destination. It validates the whole input before
  it stores anything, so on input that is not JSON (\<open>SyntaxError\<close>) the destination is
  untouched; on JSON of the wrong shape (\<open>TypeError\<close>) it reports an error after filling
  what it could; otherwise it reports no error (\<open>Decoded\<close>).
\<close>

datatype 'a json_result = SyntaxError | TypeError 'a | Decoded 'a

record world =
  http_Get :: "string \<Rightarrow> http_result"
  unmarshal_npmPackageResponse :: "string \<Rightarrow> npmPackageResponse json_result"
  unmarshal_npmPackageMetaResponse :: "string \<Rightarrow> npmPackageMetaResponse json_result"
  MarshalIndent :: "NpmPackageVersion \<Rightarrow> error + string"

section \<open>Version resolution\<close>

text \<open>
  \<open>filterCompatibleVersions\<close>: the loop over the keys of \<open>pkgMeta.Versions\<close>. A key that
  \<open>semver.NewVersion\<close> rejects is skipped by \<open>continue\<close>; a version the constraint
  accepts is appended.
\<close>

fun filter_loop :: "('c, 'v) semver \<Rightarrow> 'c \<Rightarrow> string list \<Rightarrow> 'v list \<Rightarrow> 'v list" where
  "filter_loop sv constraint [] compatible = compatible"
| "filter_loop sv constraint (version # rest) compatible =
     (case NewVersion sv version of
        None \<Rightarrow> filter_loop sv constraint rest compatible
      | Some semVer \<Rightarrow>
          if Check sv constraint semVer
          then filter_loop sv constraint rest (compatible @ [semVer])
          else filter_loop sv constraint rest compatible)"

definition filterCompatibleVersions ::
  "('c, 'v) semver \<Rightarrow> 'c \<Rightarrow> npmPackageMetaResponse \<Rightarrow> 'v list" where
  "filterCompatibleVersions sv constraint pkgMeta =
     filter_loop sv constraint (map fst (Versions pkgMeta)) []"

text \<open>
  \<open>sort.Sort\<close> on a \<open>semver.Collection\<close>: an ascending sort by \<open>LessThan\<close>. It is
  modelled by insertion sort; the theorems below use only that the result is an ascending
  rearrangement of its input, which every correct sort gives.
\<close>

fun sort_insert :: "('v \<Rightarrow> 'v \<Rightarrow> bool) \<Rightarrow> 'v \<Rightarrow> 'v list \<Rightarrow> 'v list" where
  "sort_insert lt x [] = [x]"
| "sort_insert lt x (y # ys) =
     (if lt x y then x # y # ys else y # sort_insert lt x ys)"

fun sort_Sort :: "('v \<Rightarrow> 'v \<Rightarrow> bool) \<Rightarrow> 'v list \<Rightarrow> 'v list" where
  "sort_Sort lt [] = []"
| "sort_Sort lt (x # xs) = sort_insert lt x (sort_Sort lt xs)"

text \<open>
  \<open>highestCompatibleVersion\<close>. The second argument is the pointer \<open>versions\<close>: \<open>None\<close>
  is nil, which the code logs and then dereferences.
\<close>

definition highestCompatibleVersion ::
  "('c, 'v) semver \<Rightarrow> string \<Rightarrow> npmPackageMetaResponse option \<Rightarrow> error + string" where
  "highestCompatibleVersion sv constraintStr versions =
     (case NewConstraint sv constraintStr of
        None \<Rightarrow> Inl ConstraintError
      | Some constraint \<Rightarrow>
          (case versions of
             None \<Rightarrow> Inl NilVersionsPanic
           | Some pkgMeta \<Rightarrow>
               (let filtered = filterCompatibleVersions sv constraint pkgMeta in
                if length filtered = 0 then Inl NoCompatibleVersions
                else
                  (let sorted = sort_Sort (LessThan sv) filtered
                   in Inr (String_of sv (sorted ! (length sorted - 1)))))))"

section \<open>Registry calls\<close>

definition manifest_url :: "string \<Rightarrow> string \<Rightarrow> string" where
  "manifest_url name version = ''https://registry.npmjs.org/'' @ name @ ''/'' @ version"

definition meta_url :: "string \<Rightarrow> string" where
  "meta_url p = ''https://registry.npmjs.org/'' @ p"

text \<open>
  \<open>fetchPackage\<close>: the result of \<open>json.Unmarshal\<close> is discarded (\<open>_ =\<close>) and whatever
  the destination holds afterwards is returned with a nil error.
\<close>

definition fetchPackage :: "world \<Rightarrow> string \<Rightarrow> string \<Rightarrow> error + npmPackageResponse" where
  "fetchPackage w name version =
     (case http_Get w (manifest_url name version) of
        GetFailed \<Rightarrow> Inl GetError
      | ReadFailed \<Rightarrow> Inl ReadError
      | Body body \<Rightarrow>
          (case unmarshal_npmPackageResponse w body of
             SyntaxError \<Rightarrow> Inr zero_npmPackageResponse
           | TypeError parsed \<Rightarrow> Inr parsed
           | Decoded parsed \<Rightarrow> Inr parsed))"

text \<open>\<open>fetchPackageMeta\<close>: here the error of \<open>json.Unmarshal\<close> is returned.\<close>

definition fetchPackageMeta :: "world \<Rightarrow> string \<Rightarrow> error + npmPackageMetaResponse" where
  "fetchPackageMeta w p =
     (case http_Get w (meta_url p) of
        GetFailed \<Rightarrow> Inl GetError
      | ReadFailed \<Rightarrow> Inl ReadError
      | Body body \<Rightarrow>
          (case unmarshal_npmPackageMetaResponse w body of
             SyntaxError \<Rightarrow> Inl UnmarshalError
           | TypeError parsed \<Rightarrow> Inl UnmarshalError
           | Decoded parsed \<Rightarrow> Inr parsed))"

section \<open>The resolution pass\<close>

text \<open>
  \<open>resolveDependencies\<close> runs as one goroutine per node and the handler waits on the
  shared \<open>WaitGroup\<close> until every goroutine has returned. A goroutine writes only the node
  it was given (\<open>pkg.Version\<close>, \<open>pkg.Dependencies\<close>), and each child node is freshly
  allocated, so the tree that stands when the wait ends does not depend on the
  interleaving: the model resolves the children one after the other.

  The first argument is fuel, a bound on the depth of the spawned goroutine tree:
  \<open>None\<close> means the goroutines spawned within that depth have not all returned, so
  \<open>wg.Wait\<close> is still blocked. The list threaded through is the log of registry requests,
  one URL for each \<open>http.Get\<close>.

  \<open>range_Dependencies\<close> is the \<open>for ... range npmPkg.Dependencies\<close> loop: it stores the
  new child under the dependency's name and spawns its resolution.
\<close>

fun resolveDependencies ::
    "nat \<Rightarrow> ('c, 'v) semver \<Rightarrow> world \<Rightarrow> NpmPackageVersion \<Rightarrow> string \<Rightarrow> string list
      \<Rightarrow> (NpmPackageVersion \<times> string list) option"
  and range_Dependencies ::
    "nat \<Rightarrow> ('c, 'v) semver \<Rightarrow> world \<Rightarrow> NpmPackageVersion \<Rightarrow> (string \<times> string) list
      \<Rightarrow> string list \<Rightarrow> (NpmPackageVersion \<times> string list) option"
where
  "resolveDependencies 0 sv w pkg versionConstraint log = None"
| "resolveDependencies (Suc n) sv w pkg versionConstraint log =
     (let log1 = log @ [meta_url (Name pkg)] in
      case fetchPackageMeta w (Name pkg) of
        Inl err \<Rightarrow> Some (pkg, log1)
      | Inr pkgMeta \<Rightarrow>
          (case highestCompatibleVersion sv versionConstraint (Some pkgMeta) of
             Inl err \<Rightarrow> Some (pkg, log1)
           | Inr concreteVersion \<Rightarrow>
               (let pkg1 = NpmPackageVersion (Name pkg) concreteVersion (Dependencies pkg);
                    log2 = log1 @ [manifest_url (Name pkg1) (Version pkg1)] in
                case fetchPackage w (Name pkg1) (Version pkg1) of
                  Inl err \<Rightarrow> Some (pkg1, log2)
                | Inr npmPkg \<Rightarrow>
                    range_Dependencies n sv w pkg1 (resp_Dependencies npmPkg) log2)))"
| "range_Dependencies n sv w pkg [] log = Some (pkg, log)"
| "range_Dependencies n sv w pkg ((dependencyName, dependencyVersionConstraint) # rest) log =
     (let dep = NpmPackageVersion dependencyName dependencyVersionConstraint [];
          pkg1 = NpmPackageVersion (Name pkg) (Version pkg)
                   (AList.update dependencyName dep (Dependencies pkg)) in
      if length (Dependencies pkg1) > 0 then
        (case resolveDependencies n sv w dep dependencyVersionConstraint log of
           None \<Rightarrow> None
         | Some (dep', log') \<Rightarrow>
             range_Dependencies n sv w
               (NpmPackageVersion (Name pkg1) (Version pkg1)
                  (AList.update dependencyName dep' (Dependencies pkg1)))
               rest log')
      else range_Dependencies n sv w pkg1 rest log)"

section \<open>The request handler\<close>

text \<open>
  What \<open>packageHandler\<close> reads of the request: \<open>r.RequestURI\<close> and \<open>mux.Vars(r)\<close>.
\<close>

record request =
  RequestURI :: string
  vars :: "string \<rightharpoonup> string"

text \<open>
  What the handler did to its \<open>http.ResponseWriter\<close>: the argument of \<open>WriteHeader\<close>
  (\<open>None\<close> when it was never called), the \<open>Content-Type\<close> header it set, and the bytes
  written.
\<close>

record response =
  status :: "nat option"
  content_type :: "string option"
  body :: string

text \<open>The package-level variables \<open>lastRequest\<close> and \<open>rootPkg\<close>.\<close>

record server =
  lastRequest :: "string \<rightharpoonup> string"
  rootPkg :: "NpmPackageVersion option"

definition New :: server where
  "New = \<lparr>lastRequest = Map.empty, rootPkg = None\<rparr>"

definition write_ok :: "string \<Rightarrow> response" where
  "write_ok toWrite =
     \<lparr>status = Some 200, content_type = Some ''application/json'', body = toWrite\<rparr>"

definition nothing_written :: response where
  "nothing_written = \<lparr>status = None, content_type = None, body = []\<rparr>"

definition write_500 :: response where
  "write_500 = \<lparr>status = Some 500, content_type = None, body = []\<rparr>"

text \<open>
  \<open>packageHandler\<close>, one request at a time. The result is the new package state, the
  response, and the registry requests made while serving it; \<open>None\<close> when \<open>wg.Wait\<close>
  does not return within the fuel. The loggers and the debug counter \<open>goroutineCount\<close>
  are left out: the code only writes them.
\<close>

definition packageHandler ::
  "nat \<Rightarrow> ('c, 'v) semver \<Rightarrow> world \<Rightarrow> server \<Rightarrow> request
    \<Rightarrow> (server \<times> response \<times> string list) option" where
  "packageHandler fuel sv w s r =
     (case lastRequest s (RequestURI r) of
        Some cached \<Rightarrow> Some (s, write_ok cached, [])
      | None \<Rightarrow>
          (case vars r ''package'' of
             None \<Rightarrow> Some (s, nothing_written, [])
           | Some pkgName \<Rightarrow>
               (case vars r ''version'' of
                  None \<Rightarrow> Some (s, nothing_written, [])
                | Some pkgVersion \<Rightarrow>
                    (case resolveDependencies fuel sv w
                            (NpmPackageVersion pkgName pkgVersion []) pkgVersion [] of
                       None \<Rightarrow> None
                     | Some (root, log) \<Rightarrow>
                         (case MarshalIndent w root of
                            Inl err \<Rightarrow> Some (s\<lparr>rootPkg := Some root\<rparr>, write_500, log)
                          | Inr stringified \<Rightarrow>
                              Some (s\<lparr>rootPkg := Some root,
                                      lastRequest := (lastRequest s)(RequestURI r \<mapsto> stringified)\<rparr>,
                                    write_ok stringified, log))))))"

section \<open>A concrete registry, for the scenarios\<close>

text \<open>
  A small instance of the semver parameters: a version is \<open>major.minor.patch\<close> in
  decimal, a constraint is an exact version or a caret range. The library accepts more;
  on the strings used below the two agree.
\<close>

type_synonym demo_version = "nat \<times> nat \<times> nat"

datatype demo_constraint = Exact demo_version | Caret demo_version

definition digit_of :: "char \<Rightarrow> nat option" where
  "digit_of c =
     map_of [(CHR ''0'', 0), (CHR ''1'', 1), (CHR ''2'', 2), (CHR ''3'', 3), (CHR ''4'', 4),
             (CHR ''5'', 5), (CHR ''6'', 6), (CHR ''7'', 7), (CHR ''8'', 8), (CHR ''9'', 9)] c"

fun digits_value :: "string \<Rightarrow> nat \<Rightarrow> nat option" where
  "digits_value [] acc = Some acc"
| "digits_value (c # cs) acc =
     (case digit_of c of None \<Rightarrow> None | Some d \<Rightarrow> digits_value cs (10 * acc + d))"

definition number :: "string \<Rightarrow> nat option" where
  "number s = (if s = [] then None else digits_value s 0)"

fun split_dots :: "string \<Rightarrow> string list" where
  "split_dots [] = [[]]"
| "split_dots (c # cs) =
     (if c = CHR ''.'' then [] # split_dots cs
      else (case split_dots cs of [] \<Rightarrow> [[c]] | p # ps \<Rightarrow> (c # p) # ps))"

definition demo_NewVersion :: "string \<Rightarrow> demo_version option" where
  "demo_NewVersion s =
     (case map number (split_dots s) of
        [Some a, Some b, Some c] \<Rightarrow> Some (a, b, c)
      | _ \<Rightarrow> None)"

definition demo_NewConstraint :: "string \<Rightarrow> demo_constraint option" where
  "demo_NewConstraint s =
     (case s of
        [] \<Rightarrow> None
      | c # cs \<Rightarrow>
          if c = CHR ''^'' then map_option Caret (demo_NewVersion cs)
          else map_option Exact (demo_NewVersion s))"

definition demo_LessThan :: "demo_version \<Rightarrow> demo_version \<Rightarrow> bool" where
  "demo_LessThan a b =
     (case a of (a1, a2, a3) \<Rightarrow> case b of (b1, b2, b3) \<Rightarrow>
        a1 < b1 \<or> (a1 = b1 \<and> (a2 < b2 \<or> (a2 = b2 \<and> a3 < b3))))"

fun demo_Check :: "demo_constraint \<Rightarrow> demo_version \<Rightarrow> bool" where
  "demo_Check (Exact b) v = (v = b)"
| "demo_Check (Caret (b1, b2, b3)) (v1, v2, v3) =
     (if b1 > 0 then v1 = b1 \<and> \<not> demo_LessThan (v1, v2, v3) (b1, b2, b3)
      else if b2 > 0 then v1 = 0 \<and> v2 = b2 \<and> b3 \<le> v3
      else v1 = 0 \<and> v2 = 0 \<and> v3 = b3)"

definition digit_char :: "nat \<Rightarrow> char" where
  "digit_char d = ''0123456789'' ! d"

fun decimal :: "nat \<Rightarrow> nat \<Rightarrow> string" where
  "decimal 0 n = []"
| "decimal (Suc k) n =
     (if n < 10 then [digit_char n] else decimal k (n div 10) @ [digit_char (n mod 10)])"

definition demo_String :: "demo_version \<Rightarrow> string" where
  "demo_String v =
     (case v of (a, b, c) \<Rightarrow>
        decimal (Suc a) a @ ''.'' @ decimal (Suc b) b @ ''.'' @ decimal (Suc c) c)"

definition demo_semver :: "(demo_constraint, demo_version) semver" where
  "demo_semver =
     \<lparr>NewConstraint = demo_NewConstraint, NewVersion = demo_NewVersion,
      Check = demo_Check, LessThan = demo_LessThan, String_of = demo_String\<rparr>"

text \<open>
  A stand-in for \<open>json.MarshalIndent\<close> in the scenarios: it writes a tree on one line
  and never fails.
\<close>

fun render :: "NpmPackageVersion \<Rightarrow> string"
  and render_deps :: "(string \<times> NpmPackageVersion) list \<Rightarrow> string" where
  "render (NpmPackageVersion n v ds) = n @ ''@'' @ v @ ''{'' @ render_deps ds @ ''}''"
| "render_deps [] = []"
| "render_deps (kd # rest) = fst kd @ '':'' @ render (snd kd) @ '';'' @ render_deps rest"

text \<open>
  A registry given by three tables: what each URL answers, and what \<open>json.Unmarshal\<close>
  makes of each body. A URL not listed fails in \<open>http.Get\<close>; a body not listed is not
  JSON.
\<close>

definition table_world ::
  "(string \<times> http_result) list \<Rightarrow> (string \<times> npmPackageMetaResponse json_result) list
    \<Rightarrow> (string \<times> npmPackageResponse json_result) list \<Rightarrow> world" where
  "table_world pages metas manifests =
     \<lparr>http_Get = (\<lambda>url. case map_of pages url of None \<Rightarrow> GetFailed | Some r \<Rightarrow> r),
      unmarshal_npmPackageResponse =
        (\<lambda>b. case map_of manifests b of None \<Rightarrow> SyntaxError | Some r \<Rightarrow> r),
      unmarshal_npmPackageMetaResponse =
        (\<lambda>b. case map_of metas b of None \<Rightarrow> SyntaxError | Some r \<Rightarrow> r),
      MarshalIndent = (\<lambda>t. Inr (render t))\<rparr>"

definition versions_of :: "string list \<Rightarrow> npmPackageMetaResponse json_result" where
  "versions_of vs = Decoded \<lparr>Versions = map (\<lambda>v. (v, zero_npmPackageResponse)) vs\<rparr>"

definition manifest_of ::
  "string \<Rightarrow> string \<Rightarrow> (string \<times> string) list \<Rightarrow> npmPackageResponse json_result" where
  "manifest_of n v ds = Decoded \<lparr>resp_Name = n, resp_Version = v, resp_Dependencies = ds\<rparr>"

text \<open>The metadata used for the version resolver: five keys, one of them no version.\<close>

definition demo_meta :: npmPackageMetaResponse where
  "demo_meta =
     \<lparr>Versions = map (\<lambda>v. (v, zero_npmPackageResponse))
        [''1.1.9'', ''2.0.0'', ''1.2.0'', ''not-a-version'', ''1.0.0'']\<rparr>"

text \<open>
  \<open>spec_world\<close>: \<open>root\<close> has versions 1.0.0 and 1.2.0, and 1.2.0 depends on
  \<open>leaf ^1.0.0\<close>; \<open>leaf\<close> has version 1.0.0 and no dependencies.
\<close>

definition spec_world :: world where
  "spec_world = table_world
     [(meta_url ''root'', Body ''root.meta''),
      (manifest_url ''root'' ''1.2.0'', Body ''root-1.2.0.manifest''),
      (meta_url ''leaf'', Body ''leaf.meta''),
      (manifest_url ''leaf'' ''1.0.0'', Body ''leaf-1.0.0.manifest'')]
     [(''root.meta'', versions_of [''1.0.0'', ''1.2.0'']),
      (''leaf.meta'', versions_of [''1.0.0''])]
     [(''root-1.2.0.manifest'', manifest_of ''root'' ''1.2.0'' [(''leaf'', ''^1.0.0'')]),
      (''leaf-1.0.0.manifest'', manifest_of ''leaf'' ''1.0.0'' [])]"

definition spec_request :: request where
  "spec_request =
     \<lparr>RequestURI = ''/package/root/^1.0.0'',
      vars = [''package'' \<mapsto> ''root'', ''version'' \<mapsto> ''^1.0.0'']\<rparr>"

text \<open>
  \<open>diamond_world\<close>: \<open>root\<close> depends on \<open>a\<close> and \<open>b\<close>, and both depend on \<open>c\<close>; every
  package has the single version 1.0.0. Four distinct packages, four edges.
\<close>

definition diamond_world :: world where
  "diamond_world = table_world
     [(meta_url ''root'', Body ''root.meta''),
      (manifest_url ''root'' ''1.0.0'', Body ''root.manifest''),
      (meta_url ''a'', Body ''a.meta''),
      (manifest_url ''a'' ''1.0.0'', Body ''a.manifest''),
      (meta_url ''b'', Body ''b.meta''),
      (manifest_url ''b'' ''1.0.0'', Body ''b.manifest''),
      (meta_url ''c'', Body ''c.meta''),
      (manifest_url ''c'' ''1.0.0'', Body ''c.manifest'')]
     [(''root.meta'', versions_of [''1.0.0'']),
      (''a.meta'', versions_of [''1.0.0'']),
      (''b.meta'', versions_of [''1.0.0'']),
      (''c.meta'', versions_of [''1.0.0''])]
     [(''root.manifest'',
         manifest_of ''root'' ''1.0.0'' [(''a'', ''^1.0.0''), (''b'', ''^1.0.0'')]),
      (''a.manifest'', manifest_of ''a'' ''1.0.0'' [(''c'', ''^1.0.0'')]),
      (''b.manifest'', manifest_of ''b'' ''1.0.0'' [(''c'', ''^1.0.0'')]),
      (''c.manifest'', manifest_of ''c'' ''1.0.0'' [])]"

text \<open>\<open>cyclic_world\<close>: \<open>ping\<close> depends on \<open>pong\<close> and \<open>pong\<close> on \<open>ping\<close>.\<close>

definition cyclic_world :: world where
  "cyclic_world = table_world
     [(meta_url ''ping'', Body ''ping.meta''),
      (manifest_url ''ping'' ''1.0.0'', Body ''ping.manifest''),
      (meta_url ''pong'', Body ''pong.meta''),
      (manifest_url ''pong'' ''1.0.0'', Body ''pong.manifest'')]
     [(''ping.meta'', versions_of [''1.0.0'']),
      (''pong.meta'', versions_of [''1.0.0''])]
     [(''ping.manifest'', manifest_of ''ping'' ''1.0.0'' [(''pong'', ''^1.0.0'')]),
      (''pong.manifest'', manifest_of ''pong'' ''1.0.0'' [(''ping'', ''^1.0.0'')])]"

definition cyclic_request :: request where
  "cyclic_request =
     \<lparr>RequestURI = ''/package/ping/^1.0.0'',
      vars = [''package'' \<mapsto> ''ping'', ''version'' \<mapsto> ''^1.0.0'']\<rparr>"

text \<open>
  \<open>broken_world\<close>: \<open>root\<close> depends on four packages. The registry does not answer
  for \<open>gone\<close>; \<open>old\<close> has no version in the requested range; the manifest of \<open>bare\<close>
  cannot be read; \<open>leaf\<close> is fine.
\<close>

definition broken_world :: world where
  "broken_world = table_world
     [(meta_url ''root'', Body ''root.meta''),
      (manifest_url ''root'' ''1.0.0'', Body ''root.manifest''),
      (meta_url ''old'', Body ''old.meta''),
      (meta_url ''bare'', Body ''bare.meta''),
      (manifest_url ''bare'' ''1.3.0'', ReadFailed),
      (meta_url ''leaf'', Body ''leaf.meta''),
      (manifest_url ''leaf'' ''1.0.0'', Body ''leaf.manifest'')]
     [(''root.meta'', versions_of [''1.0.0'']),
      (''old.meta'', versions_of [''1.0.0'']),
      (''bare.meta'', versions_of [''1.3.0'']),
      (''leaf.meta'', versions_of [''1.0.0''])]
     [(''root.manifest'',
         manifest_of ''root'' ''1.0.0''
           [(''gone'', ''^1.0.0''), (''old'', ''^2.0.0''), (''bare'', ''^1.0.0''),
            (''leaf'', ''^1.0.0'')]),
      (''leaf.manifest'', manifest_of ''leaf'' ''1.0.0'' [])]"

definition broken_request :: request where
  "broken_request =
     \<lparr>RequestURI = ''/package/root/1.0.0'',
      vars = [''package'' \<mapsto> ''root'', ''version'' \<mapsto> ''1.0.0'']\<rparr>"

text \<open>
  \<open>garbled_world\<close>: the registry answers the manifest request for \<open>page 1.0.0\<close> with
  a body that is not JSON.
\<close>

definition garbled_world :: world where
  "garbled_world = table_world
     [(meta_url ''page'', Body ''page.meta''),
      (manifest_url ''page'' ''1.0.0'', Body ''<html>Bad Gateway</html>'')]
     [(''page.meta'', versions_of [''1.0.0''])]
     []"


section \<open>What the code decides about a node\<close>

text \<open>
  The three early returns of \<open>resolveDependencies\<close>: the metadata cannot be fetched,
  no version is selected, or the manifest cannot be fetched.
\<close>

definition resolution_fails :: "('c, 'v) semver \<Rightarrow> world \<Rightarrow> string \<Rightarrow> string \<Rightarrow> bool" where
  "resolution_fails sv w name versionConstraint =
     (case fetchPackageMeta w name of
        Inl err \<Rightarrow> True
      | Inr pkgMeta \<Rightarrow>
          (case highestCompatibleVersion sv versionConstraint (Some pkgMeta) of
             Inl err \<Rightarrow> True
           | Inr concreteVersion \<Rightarrow>
               (case fetchPackage w name concreteVersion of
                  Inl err \<Rightarrow> True
                | Inr npmPkg \<Rightarrow> False)))"

text \<open>
  The value \<open>pkg.Version\<close> is left with when \<open>resolveDependencies\<close> returns: the
  assignment \<open>pkg.Version = concreteVersion\<close> is reached only past the first two returns.
\<close>

definition reported_version :: "('c, 'v) semver \<Rightarrow> world \<Rightarrow> string \<Rightarrow> string \<Rightarrow> string" where
  "reported_version sv w name versionConstraint =
     (case fetchPackageMeta w name of
        Inl err \<Rightarrow> versionConstraint
      | Inr pkgMeta \<Rightarrow>
          (case highestCompatibleVersion sv versionConstraint (Some pkgMeta) of
             Inl err \<Rightarrow> versionConstraint
           | Inr concreteVersion \<Rightarrow> concreteVersion))"

text \<open>The tree a dependency edge yields when its goroutine tree is resolved on its own.\<close>

definition child_tree ::
  "nat \<Rightarrow> ('c, 'v) semver \<Rightarrow> world \<Rightarrow> string \<Rightarrow> string \<Rightarrow> NpmPackageVersion option" where
  "child_tree n sv w dependencyName dependencyVersionConstraint =
     map_option fst
       (resolveDependencies n sv w
          (NpmPackageVersion dependencyName dependencyVersionConstraint [])
          dependencyVersionConstraint [])"

section \<open>The version resolver\<close>

subsection \<open>Filtering\<close>

lemma set_filter_loop:
  "set (filter_loop sv c vs acc) =
     set acc \<union> {v. \<exists>s \<in> set vs. NewVersion sv s = Some v \<and> Check sv c v}"
  by (induction vs arbitrary: acc) (auto split: option.splits)

lemma set_filterCompatibleVersions:
  "set (filterCompatibleVersions sv c m) =
     {v. \<exists>s \<in> fst ` set (Versions m). NewVersion sv s = Some v \<and> Check sv c v}"
  by (simp add: filterCompatibleVersions_def set_filter_loop)

lemma filter_loop_skips_unparseable:
  "filter_loop sv c (filter (\<lambda>s. NewVersion sv s \<noteq> None) vs) acc = filter_loop sv c vs acc"
  by (induction vs arbitrary: acc) (auto split: option.splits)

subsection \<open>Sorting\<close>

lemma set_sort_insert: "set (sort_insert lt x ys) = insert x (set ys)"
  by (induction ys) auto

lemma set_sort_Sort: "set (sort_Sort lt xs) = set xs"
  by (induction xs) (auto simp: set_sort_insert)

lemma length_sort_insert: "length (sort_insert lt x ys) = Suc (length ys)"
  by (induction ys) auto

lemma length_sort_Sort: "length (sort_Sort lt xs) = length xs"
  by (induction xs) (auto simp: length_sort_insert)

lemma sorted_sort_insert:
  assumes asym: "\<And>a b. lt a b \<Longrightarrow> \<not> lt b a"
    and cotrans: "\<And>a b c. lt a c \<Longrightarrow> lt a b \<or> lt b c"
    and "sorted_wrt (\<lambda>a b. \<not> lt b a) ys"
  shows "sorted_wrt (\<lambda>a b. \<not> lt b a) (sort_insert lt x ys)"
  using assms(3)
proof (induction ys)
  case Nil
  then show ?case by simp
next
  case (Cons y ys)
  show ?case
  proof (cases "lt x y")
    case True
    have "\<not> lt z x" if "z \<in> set ys" for z
    proof
      assume "lt z x"
      then have "lt z y \<or> lt y x" by (rule cotrans)
      moreover have "\<not> lt z y" using Cons.prems that by simp
      moreover have "\<not> lt y x" using True asym by blast
      ultimately show False by blast
    qed
    with True Cons.prems asym show ?thesis by auto
  next
    case False
    with Cons show ?thesis by (auto simp: set_sort_insert)
  qed
qed

lemma sorted_sort_Sort:
  assumes "\<And>a b. lt a b \<Longrightarrow> \<not> lt b a"
    and "\<And>a b c. lt a c \<Longrightarrow> lt a b \<or> lt b c"
  shows "sorted_wrt (\<lambda>a b. \<not> lt b a) (sort_Sort lt xs)"
  by (induction xs) (simp_all add: sorted_sort_insert[OF assms])

lemma sorted_wrt_last_greatest:
  assumes "sorted_wrt P ys" and "ys \<noteq> []" and "\<And>a. P a a" and "x \<in> set ys"
  shows "P x (ys ! (length ys - 1))"
  using assms
proof (induction ys)
  case Nil
  then show ?case by simp
next
  case (Cons y ys)
  show ?case
  proof (cases "ys = []")
    case True
    with Cons.prems show ?thesis by simp
  next
    case False
    then have nth: "(y # ys) ! (length (y # ys) - 1) = ys ! (length ys - 1)"
      by (cases ys) auto
    have in_set: "ys ! (length ys - 1) \<in> set ys" using False by simp
    show ?thesis
    proof (cases "x = y")
      case True
      with Cons.prems in_set nth show ?thesis by auto
    next
      case neq: False
      with Cons.prems have "x \<in> set ys" by simp
      with Cons.IH[OF _ False Cons.prems(3)] Cons.prems(1) nth show ?thesis by simp
    qed
  qed
qed

lemma sort_Sort_last_maximal:
  assumes asym: "\<And>a b. lt a b \<Longrightarrow> \<not> lt b a"
    and cotrans: "\<And>a b c. lt a c \<Longrightarrow> lt a b \<or> lt b c"
    and "xs \<noteq> []"
  shows "sort_Sort lt xs ! (length (sort_Sort lt xs) - 1) \<in> set xs"
    and "x \<in> set xs \<Longrightarrow> \<not> lt (sort_Sort lt xs ! (length (sort_Sort lt xs) - 1)) x"
proof -
  let ?ys = "sort_Sort lt xs"
  have ne: "?ys \<noteq> []" using assms(3) length_sort_Sort[of lt xs] by auto
  then have "?ys ! (length ?ys - 1) \<in> set ?ys" by simp
  then show "?ys ! (length ?ys - 1) \<in> set xs" by (simp add: set_sort_Sort)
  have irrefl: "\<not> lt a a" for a using asym by blast
  show "\<not> lt (?ys ! (length ?ys - 1)) x" if "x \<in> set xs"
    using sorted_wrt_last_greatest[OF sorted_sort_Sort[of lt xs, OF asym cotrans] ne, of x] irrefl that
    by (simp add: set_sort_Sort)
qed

subsection \<open>The instance used in the scenarios\<close>

lemma demo_LessThan_asym: "LessThan demo_semver a b \<Longrightarrow> \<not> LessThan demo_semver b a"
  by (auto simp: demo_semver_def demo_LessThan_def split: prod.splits)

lemma demo_LessThan_cotrans:
  "LessThan demo_semver a c \<Longrightarrow> LessThan demo_semver a b \<or> LessThan demo_semver b c"
  by (auto simp: demo_semver_def demo_LessThan_def split: prod.splits)

lemma demo_parses:
  "NewVersion demo_semver ''1.1.9'' = Some (1, 1, 9)"
  "NewVersion demo_semver ''2.0.0'' = Some (2, 0, 0)"
  "NewVersion demo_semver ''1.2.0'' = Some (1, 2, 0)"
  "NewVersion demo_semver ''1.0.0'' = Some (1, 0, 0)"
  "NewVersion demo_semver ''not-a-version'' = None"
  "NewConstraint demo_semver ''^1.0.0'' = Some (Caret (1, 0, 0))"
  by code_simp+

subsection \<open>The selected version is a maximum\<close>

text \<open>
  Claim C1. For every constraint string \<open>C\<close> and every set of available version
  strings, \<open>highestCompatibleVersion\<close> returns the error of \<open>semver.NewConstraint\<close>
  when \<open>C\<close> is malformed, the error "no compatible versions found" when no available
  string parses to a version that satisfies \<open>C\<close>, and otherwise the rendering of a version
  \<open>m\<close> that is the parse of an available string, satisfies \<open>C\<close>, and is not below any
  other available version that satisfies \<open>C\<close>. The order is the library's \<open>LessThan\<close>;
  what is assumed of it is that it is a strict weak order (it compares major, minor,
  patch and pre-release and ignores build metadata). The available strings are the keys
  of \<open>pkgMeta.Versions\<close> in any order of iteration.
\<close>

theorem highestCompatibleVersion_maximum:
  assumes asym: "\<And>a b. LessThan sv a b \<Longrightarrow> \<not> LessThan sv b a"
    and cotrans: "\<And>a b c. LessThan sv a c \<Longrightarrow> LessThan sv a b \<or> LessThan sv b c"
  shows "case NewConstraint sv C of
           None \<Rightarrow> highestCompatibleVersion sv C (Some pkgMeta) = Inl ConstraintError
         | Some c \<Rightarrow>
             if (\<forall>s \<in> fst ` set (Versions pkgMeta). \<forall>v. NewVersion sv s = Some v \<longrightarrow> \<not> Check sv c v)
             then highestCompatibleVersion sv C (Some pkgMeta) = Inl NoCompatibleVersions
             else (\<exists>s \<in> fst ` set (Versions pkgMeta). \<exists>m.
                     NewVersion sv s = Some m \<and> Check sv c m \<and>
                     highestCompatibleVersion sv C (Some pkgMeta) = Inr (String_of sv m) \<and>
                     (\<forall>s' \<in> fst ` set (Versions pkgMeta). \<forall>v.
                        NewVersion sv s' = Some v \<and> Check sv c v \<longrightarrow> \<not> LessThan sv m v))"
proof (cases "NewConstraint sv C")
  case None
  then show ?thesis by (simp add: highestCompatibleVersion_def)
next
  case (Some c)
  let ?f = "filterCompatibleVersions sv c pkgMeta"
  let ?ys = "sort_Sort (LessThan sv) ?f"
  let ?m = "?ys ! (length ?ys - 1)"
  show ?thesis
  proof (cases "?f = []")
    case True
    then have "set ?f = {}" by simp
    then have "\<forall>s \<in> fst ` set (Versions pkgMeta). \<forall>v. NewVersion sv s = Some v \<longrightarrow> \<not> Check sv c v"
      unfolding set_filterCompatibleVersions by blast
    with Some True show ?thesis by (simp add: highestCompatibleVersion_def)
  next
    case False
    have m_in: "?m \<in> set ?f"
      by (rule sort_Sort_last_maximal(1)[OF asym cotrans False])
    have m_max: "\<not> LessThan sv ?m x" if "x \<in> set ?f" for x
      using sort_Sort_last_maximal(2)[OF asym cotrans False that] .
    from m_in obtain s where s: "s \<in> fst ` set (Versions pkgMeta)"
      "NewVersion sv s = Some ?m" "Check sv c ?m"
      unfolding set_filterCompatibleVersions by blast
    have res: "highestCompatibleVersion sv C (Some pkgMeta) = Inr (String_of sv ?m)"
      using Some False by (simp add: highestCompatibleVersion_def Let_def)
    have max: "\<forall>s' \<in> fst ` set (Versions pkgMeta). \<forall>v.
                 NewVersion sv s' = Some v \<and> Check sv c v \<longrightarrow> \<not> LessThan sv ?m v"
    proof (intro ballI allI impI)
      fix s' v assume "s' \<in> fst ` set (Versions pkgMeta)" "NewVersion sv s' = Some v \<and> Check sv c v"
      then have "v \<in> set ?f" unfolding set_filterCompatibleVersions by blast
      then show "\<not> LessThan sv ?m v" by (rule m_max)
    qed
    have nonempty: "\<not> (\<forall>s \<in> fst ` set (Versions pkgMeta). \<forall>v. NewVersion sv s = Some v \<longrightarrow> \<not> Check sv c v)"
      using s by blast
    show ?thesis
      unfolding Some option.case if_not_P[OF nonempty]
      using s res max by blast
  qed
qed

text \<open>
  At the metadata \<open>demo_meta\<close> and the constraint \<open>^1.0.0\<close>: the theorem leaves only
  1.2.0, since 2.0.0 is outside the range and 1.1.9 and 1.0.0 are below 1.2.0.
\<close>

theorem highestCompatibleVersion_maximum_witness:
  "highestCompatibleVersion demo_semver ''^1.0.0'' (Some demo_meta) = Inr ''1.2.0''"
proof -
  let ?res = "highestCompatibleVersion demo_semver ''^1.0.0'' (Some demo_meta)"
  have keys: "fst ` set (Versions demo_meta) =
      {''1.1.9'', ''2.0.0'', ''1.2.0'', ''not-a-version'', ''1.0.0''}"
    by (simp add: demo_meta_def)
  have chk: "Check demo_semver (Caret (1, 0, 0)) (1, 2, 0)"
    by (simp add: demo_semver_def demo_LessThan_def)
  note inst = highestCompatibleVersion_maximum[of demo_semver "''^1.0.0''" demo_meta,
      OF demo_LessThan_asym demo_LessThan_cotrans]
  have "\<exists>m. ?res = Inr (String_of demo_semver m)
      \<and> m \<in> {(1, 1, 9), (1, 2, 0), (1, 0, 0), (2, 0, 0)}
      \<and> Check demo_semver (Caret (1, 0, 0)) m \<and> \<not> LessThan demo_semver m (1, 2, 0)"
    using inst chk unfolding keys by (auto simp: demo_parses split: if_splits)
  then obtain m where m: "?res = Inr (String_of demo_semver m)"
    "m \<in> {(1, 1, 9), (1, 2, 0), (1, 0, 0), (2, 0, 0)}"
    "Check demo_semver (Caret (1, 0, 0)) m" "\<not> LessThan demo_semver m (1, 2, 0)"
    by blast
  from m(2,3,4) have "m = (1, 2, 0)"
    by (auto simp: demo_semver_def demo_LessThan_def)
  moreover have "String_of demo_semver (1, 2, 0) = ''1.2.0''" by code_simp
  ultimately show ?thesis using m(1) by simp
qed

subsection \<open>Unparseable version strings\<close>

text \<open>
  Claim C9. For every constraint and every set of available version strings, a string
  that \<open>semver.NewVersion\<close> rejects is skipped without an error: the filtered collection
  and the result of \<open>highestCompatibleVersion\<close> are the same as on the metadata with
  those strings removed.
\<close>

theorem unparseable_versions_skipped:
  "filterCompatibleVersions sv c pkgMeta =
     filterCompatibleVersions sv c
       (pkgMeta\<lparr>Versions := filter (\<lambda>kv. NewVersion sv (fst kv) \<noteq> None) (Versions pkgMeta)\<rparr>)
   \<and> highestCompatibleVersion sv C (Some pkgMeta) =
     highestCompatibleVersion sv C
       (Some (pkgMeta\<lparr>Versions := filter (\<lambda>kv. NewVersion sv (fst kv) \<noteq> None) (Versions pkgMeta)\<rparr>))"
proof -
  have "filterCompatibleVersions sv c pkgMeta =
     filterCompatibleVersions sv c
       (pkgMeta\<lparr>Versions := filter (\<lambda>kv. NewVersion sv (fst kv) \<noteq> None) (Versions pkgMeta)\<rparr>)" for c
    using filter_loop_skips_unparseable[of sv c "map fst (Versions pkgMeta)" "[]"]
    by (simp add: filterCompatibleVersions_def filter_map comp_def)
  then show ?thesis
    by (simp add: highestCompatibleVersion_def split: option.splits)
qed

section \<open>The resolution pass\<close>

subsection \<open>Unfolding the two functions\<close>

lemma range_Cons:
  "range_Dependencies n sv w pkg ((dn, dc) # rest) log =
     (case resolveDependencies n sv w (NpmPackageVersion dn dc []) dc log of
        None \<Rightarrow> None
      | Some (dep', log') \<Rightarrow>
          range_Dependencies n sv w
            (NpmPackageVersion (Name pkg) (Version pkg)
               (AList.update dn dep' (Dependencies pkg))) rest log')"
  by (simp add: Let_def split: option.splits)

lemma resolve_Suc:
  "resolveDependencies (Suc n) sv w pkg vc log =
     (case fetchPackageMeta w (Name pkg) of
        Inl err \<Rightarrow> Some (pkg, log @ [meta_url (Name pkg)])
      | Inr pkgMeta \<Rightarrow>
          (case highestCompatibleVersion sv vc (Some pkgMeta) of
             Inl err \<Rightarrow> Some (pkg, log @ [meta_url (Name pkg)])
           | Inr cv \<Rightarrow>
               (case fetchPackage w (Name pkg) cv of
                  Inl err \<Rightarrow>
                    Some (NpmPackageVersion (Name pkg) cv (Dependencies pkg),
                          log @ [meta_url (Name pkg), manifest_url (Name pkg) cv])
                | Inr npmPkg \<Rightarrow>
                    range_Dependencies n sv w
                      (NpmPackageVersion (Name pkg) cv (Dependencies pkg))
                      (resp_Dependencies npmPkg)
                      (log @ [meta_url (Name pkg), manifest_url (Name pkg) cv]))))"
  by (simp add: Let_def split: sum.splits)

declare resolveDependencies.simps(2) [simp del] range_Dependencies.simps(2) [simp del]

subsection \<open>The log is only appended to\<close>

lemma range_log_step:
  assumes R: "\<And>pkg vc log. resolveDependencies n sv w pkg vc log =
      map_option (\<lambda>(t, l). (t, log @ l)) (resolveDependencies n sv w pkg vc [])"
  shows "range_Dependencies n sv w pkg ds log =
      map_option (\<lambda>(t, l). (t, log @ l)) (range_Dependencies n sv w pkg ds [])"
proof (induction ds arbitrary: pkg log)
  case Nil
  show ?case by simp
next
  case (Cons d ds)
  obtain dn dc where d: "d = (dn, dc)" by (cases d)
  let ?dep = "NpmPackageVersion dn dc []"
  show ?case
  proof (cases "resolveDependencies n sv w ?dep dc []")
    case None
    then have "resolveDependencies n sv w ?dep dc log = None"
      using R[of ?dep dc log] by simp
    with None show ?thesis by (simp add: d range_Cons)
  next
    case (Some r)
    obtain t l where r: "r = (t, l)" by (cases r)
    have there: "resolveDependencies n sv w ?dep dc log = Some (t, log @ l)"
      using R[of ?dep dc log] Some r by simp
    let ?pkg2 = "NpmPackageVersion (Name pkg) (Version pkg) (AList.update dn t (Dependencies pkg))"
    have "range_Dependencies n sv w ?pkg2 ds (log @ l) =
        map_option (\<lambda>(t, l'). (t, (log @ l) @ l')) (range_Dependencies n sv w ?pkg2 ds [])"
      by (rule Cons.IH)
    moreover have "range_Dependencies n sv w ?pkg2 ds l =
        map_option (\<lambda>(t, l'). (t, l @ l')) (range_Dependencies n sv w ?pkg2 ds [])"
      by (rule Cons.IH)
    ultimately show ?thesis
      using Some r there
      by (simp add: d range_Cons option.map_comp comp_def case_prod_unfold)
  qed
qed

lemma resolve_log:
  "resolveDependencies n sv w pkg vc log =
     map_option (\<lambda>(t, l). (t, log @ l)) (resolveDependencies n sv w pkg vc [])"
proof (induction n arbitrary: pkg vc log)
  case 0
  show ?case by simp
next
  case (Suc n)
  have step: "range_Dependencies n sv w p ds lg =
      map_option (\<lambda>(t, l). (t, lg @ l)) (range_Dependencies n sv w p ds [])" for p ds lg
    by (rule range_log_step) (rule Suc.IH)
  show ?case
    apply (simp add: resolve_Suc split: sum.splits)
    apply (intro allI impI conjI)
    apply (subst step)
    apply (subst step[where lg = "[_, _]"])
    apply (simp add: option.map_comp comp_def case_prod_unfold)
    done
qed

lemma range_log:
  "range_Dependencies n sv w pkg ds log =
     map_option (\<lambda>(t, l). (t, log @ l)) (range_Dependencies n sv w pkg ds [])"
  by (rule range_log_step) (rule resolve_log)

subsection \<open>What the loop over the manifest builds\<close>



lemma child_tree_of_resolve:
  "resolveDependencies n sv w (NpmPackageVersion dn dc []) dc log = Some (t, log') \<Longrightarrow>
     child_tree n sv w dn dc = Some t"
  using resolve_log[of n sv w "NpmPackageVersion dn dc []" dc log]
  by (auto simp: child_tree_def)

lemma resolve_of_child_tree:
  "child_tree n sv w dn dc = Some t \<Longrightarrow>
     \<exists>l. resolveDependencies n sv w (NpmPackageVersion dn dc []) dc log = Some (t, log @ l)"
  using resolve_log[of n sv w "NpmPackageVersion dn dc []" dc log]
  by (auto simp: child_tree_def)

lemma range_children:
  assumes "distinct (map fst (Dependencies pkg) @ map fst ds)"
    and "range_Dependencies n sv w pkg ds log = Some (pkg', log')"
  shows "map fst (Dependencies pkg') = map fst (Dependencies pkg) @ map fst ds
    \<and> (\<forall>(k, c) \<in> set ds. map_of (Dependencies pkg') k = child_tree n sv w k c
          \<and> child_tree n sv w k c \<noteq> None)
    \<and> (\<forall>k. k \<notin> fst ` set ds \<longrightarrow> map_of (Dependencies pkg') k = map_of (Dependencies pkg) k)"
  using assms
proof (induction ds arbitrary: pkg log)
  case Nil
  then show ?case by simp
next
  case (Cons d ds)
  obtain dn dc where d: "d = (dn, dc)" by (cases d)
  from Cons.prems(2) obtain dep' l1 where
    dep: "resolveDependencies n sv w (NpmPackageVersion dn dc []) dc log = Some (dep', l1)"
    and rest: "range_Dependencies n sv w
       (NpmPackageVersion (Name pkg) (Version pkg) (AList.update dn dep' (Dependencies pkg)))
       ds l1 = Some (pkg', log')"
    by (auto simp: d range_Cons split: option.splits)
  let ?pkg2 = "NpmPackageVersion (Name pkg) (Version pkg) (AList.update dn dep' (Dependencies pkg))"
  have fresh: "dn \<notin> set (map fst (Dependencies pkg))" "dn \<notin> fst ` set ds"
    using Cons.prems(1) by (auto simp: d)
  have keys2: "map fst (Dependencies ?pkg2) = map fst (Dependencies pkg) @ [dn]"
    using fresh(1) by (simp add: update_keys)
  have dist2: "distinct (map fst (Dependencies ?pkg2) @ map fst ds)"
    using Cons.prems(1) unfolding keys2 by (auto simp: d)
  note IH = Cons.IH[OF dist2 rest]
  have tree: "child_tree n sv w dn dc = Some dep'"
    by (rule child_tree_of_resolve[OF dep])
  have here: "map_of (Dependencies pkg') dn = Some dep'"
    using IH fresh(2) by (simp add: update_conv')
  have keys: "map fst (Dependencies pkg') = map fst (Dependencies pkg) @ map fst (d # ds)"
    using IH keys2 by (simp add: d)
  have children: "\<forall>(k, c) \<in> set (d # ds). map_of (Dependencies pkg') k = child_tree n sv w k c
      \<and> child_tree n sv w k c \<noteq> None"
    using IH here tree by (auto simp: d)
  have others: "\<forall>k. k \<notin> fst ` set (d # ds) \<longrightarrow>
      map_of (Dependencies pkg') k = map_of (Dependencies pkg) k"
    using IH by (auto simp: d update_conv')
  from keys children others show ?case by blast
qed

lemma range_returns:
  assumes "\<forall>(k, c) \<in> set ds. child_tree n sv w k c \<noteq> None"
  shows "\<exists>pkg' log'. range_Dependencies n sv w pkg ds log = Some (pkg', log')"
  using assms
proof (induction ds arbitrary: pkg log)
  case Nil
  show ?case by simp
next
  case (Cons d ds)
  obtain dn dc where d: "d = (dn, dc)" by (cases d)
  from Cons.prems obtain t where "child_tree n sv w dn dc = Some t" by (auto simp: d)
  then obtain l where
    "resolveDependencies n sv w (NpmPackageVersion dn dc []) dc log = Some (t, log @ l)"
    using resolve_of_child_tree by blast
  moreover have "\<forall>(k, c) \<in> set ds. child_tree n sv w k c \<noteq> None"
    using Cons.prems by simp
  ultimately show ?case
    using Cons.IH by (simp add: d range_Cons)
qed


lemma failing_node_leaf:
  assumes "resolution_fails sv w dn dc"
  shows "\<exists>l. resolveDependencies (Suc n) sv w (NpmPackageVersion dn dc []) dc log =
      Some (NpmPackageVersion dn (reported_version sv w dn dc) [], log @ l)"
  using assms
  by (auto simp: resolve_Suc resolution_fails_def reported_version_def split: sum.splits)

section \<open>The scenarios, evaluated\<close>


lemma spec_result:
  "resolveDependencies 2 demo_semver spec_world
     (NpmPackageVersion ''root'' ''^1.0.0'' []) ''^1.0.0'' [] =
   Some (NpmPackageVersion ''root'' ''1.2.0'' [(''leaf'', NpmPackageVersion ''leaf'' ''1.0.0'' [])],
         [meta_url ''root'', manifest_url ''root'' ''1.2.0'',
          meta_url ''leaf'', manifest_url ''leaf'' ''1.0.0''])"
  by code_simp

lemma spec_marshal:
  "MarshalIndent spec_world
     (NpmPackageVersion ''root'' ''1.2.0'' [(''leaf'', NpmPackageVersion ''leaf'' ''1.0.0'' [])]) =
   Inr ''root@1.2.0{leaf:leaf@1.0.0{};}''"
  by code_simp

lemma diamond_result:
  "resolveDependencies 3 demo_semver diamond_world
     (NpmPackageVersion ''root'' ''1.0.0'' []) ''1.0.0'' [] =
   Some (NpmPackageVersion ''root'' ''1.0.0''
           [(''a'', NpmPackageVersion ''a'' ''1.0.0'' [(''c'', NpmPackageVersion ''c'' ''1.0.0'' [])]),
            (''b'', NpmPackageVersion ''b'' ''1.0.0'' [(''c'', NpmPackageVersion ''c'' ''1.0.0'' [])])],
         [''https://registry.npmjs.org/root'', ''https://registry.npmjs.org/root/1.0.0'',
          ''https://registry.npmjs.org/a'', ''https://registry.npmjs.org/a/1.0.0'',
          ''https://registry.npmjs.org/c'', ''https://registry.npmjs.org/c/1.0.0'',
          ''https://registry.npmjs.org/b'', ''https://registry.npmjs.org/b/1.0.0'',
          ''https://registry.npmjs.org/c'', ''https://registry.npmjs.org/c/1.0.0''])"
  by code_simp

lemma diamond_counts:
  "count_list
     [''https://registry.npmjs.org/root'', ''https://registry.npmjs.org/root/1.0.0'',
      ''https://registry.npmjs.org/a'', ''https://registry.npmjs.org/a/1.0.0'',
      ''https://registry.npmjs.org/c'', ''https://registry.npmjs.org/c/1.0.0'',
      ''https://registry.npmjs.org/b'', ''https://registry.npmjs.org/b/1.0.0'',
      ''https://registry.npmjs.org/c'', ''https://registry.npmjs.org/c/1.0.0'']
     (meta_url ''c'') = 2"
  "count_list
     [''https://registry.npmjs.org/root'', ''https://registry.npmjs.org/root/1.0.0'',
      ''https://registry.npmjs.org/a'', ''https://registry.npmjs.org/a/1.0.0'',
      ''https://registry.npmjs.org/c'', ''https://registry.npmjs.org/c/1.0.0'',
      ''https://registry.npmjs.org/b'', ''https://registry.npmjs.org/b/1.0.0'',
      ''https://registry.npmjs.org/c'', ''https://registry.npmjs.org/c/1.0.0'']
     (manifest_url ''c'' ''1.0.0'') = 2"
  "length (remdups
     [''https://registry.npmjs.org/root'', ''https://registry.npmjs.org/root/1.0.0'',
      ''https://registry.npmjs.org/a'', ''https://registry.npmjs.org/a/1.0.0'',
      ''https://registry.npmjs.org/c'', ''https://registry.npmjs.org/c/1.0.0'',
      ''https://registry.npmjs.org/b'', ''https://registry.npmjs.org/b/1.0.0'',
      ''https://registry.npmjs.org/c'', ''https://registry.npmjs.org/c/1.0.0'']) = 8"
  by code_simp+

lemma cyclic_facts:
  "fetchPackageMeta cyclic_world ''ping'' = Inr \<lparr>Versions = [(''1.0.0'', zero_npmPackageResponse)]\<rparr>"
  "fetchPackageMeta cyclic_world ''pong'' = Inr \<lparr>Versions = [(''1.0.0'', zero_npmPackageResponse)]\<rparr>"
  "highestCompatibleVersion demo_semver ''^1.0.0''
     (Some \<lparr>Versions = [(''1.0.0'', zero_npmPackageResponse)]\<rparr>) = Inr ''1.0.0''"
  "fetchPackage cyclic_world ''ping'' ''1.0.0'' =
     Inr \<lparr>resp_Name = ''ping'', resp_Version = ''1.0.0'',
          resp_Dependencies = [(''pong'', ''^1.0.0'')]\<rparr>"
  "fetchPackage cyclic_world ''pong'' ''1.0.0'' =
     Inr \<lparr>resp_Name = ''pong'', resp_Version = ''1.0.0'',
          resp_Dependencies = [(''ping'', ''^1.0.0'')]\<rparr>"
  by code_simp+

lemma cycle_never_returns:
  "resolveDependencies n demo_semver cyclic_world (NpmPackageVersion ''ping'' v ds) ''^1.0.0'' log
     = None
   \<and> resolveDependencies n demo_semver cyclic_world (NpmPackageVersion ''pong'' v ds) ''^1.0.0'' log
     = None"
proof (induction n arbitrary: v ds log)
  case 0
  show ?case by simp
next
  case (Suc n)
  show ?case by (simp add: resolve_Suc cyclic_facts range_Cons Suc.IH)
qed

lemma broken_facts:
  "resolution_fails demo_semver broken_world ''gone'' ''^1.0.0''"
  "lastRequest New (RequestURI broken_request) = None"
  "vars broken_request ''package'' = Some ''root''"
  "vars broken_request ''version'' = Some ''1.0.0''"
  "fetchPackageMeta broken_world ''root'' = Inr \<lparr>Versions = [(''1.0.0'', zero_npmPackageResponse)]\<rparr>"
  "highestCompatibleVersion demo_semver ''1.0.0''
     (Some \<lparr>Versions = [(''1.0.0'', zero_npmPackageResponse)]\<rparr>) = Inr ''1.0.0''"
  "fetchPackage broken_world ''root'' ''1.0.0'' =
     Inr \<lparr>resp_Name = ''root'', resp_Version = ''1.0.0'',
          resp_Dependencies =
            [(''gone'', ''^1.0.0''), (''old'', ''^2.0.0''), (''bare'', ''^1.0.0''),
             (''leaf'', ''^1.0.0'')]\<rparr>"
  by code_simp+

lemma broken_children:
  "child_tree (Suc 0) demo_semver broken_world ''old'' ''^2.0.0'' =
     Some (NpmPackageVersion ''old'' ''^2.0.0'' [])"
  "child_tree (Suc 0) demo_semver broken_world ''bare'' ''^1.0.0'' =
     Some (NpmPackageVersion ''bare'' ''1.3.0'' [])"
  "child_tree (Suc 0) demo_semver broken_world ''leaf'' ''^1.0.0'' =
     Some (NpmPackageVersion ''leaf'' ''1.0.0'' [])"
  "reported_version demo_semver broken_world ''gone'' ''^1.0.0'' = ''^1.0.0''"
  by code_simp+




lemma garbled_facts:
  "fetchPackageMeta garbled_world ''page'' = Inr \<lparr>Versions = [(''1.0.0'', zero_npmPackageResponse)]\<rparr>"
  "highestCompatibleVersion demo_semver ''^1.0.0''
     (Some \<lparr>Versions = [(''1.0.0'', zero_npmPackageResponse)]\<rparr>) = Inr ''1.0.0''"
  "http_Get garbled_world (manifest_url ''page'' ''1.0.0'') = Body ''<html>Bad Gateway</html>''"
  "unmarshal_npmPackageResponse garbled_world ''<html>Bad Gateway</html>'' = SyntaxError"
  by code_simp+

section \<open>Properties of the resolution pass\<close>

subsection \<open>A manifest body that is not JSON\<close>

text \<open>
  Claim C10. When the body of a manifest response is not valid JSON, \<open>fetchPackage\<close>
  returns the zero-valued manifest, whose dependency map is empty, and no error; the
  node is then resolved to its concrete version and has no dependencies, exactly like a
  package that has none.
\<close>

theorem fetchPackage_ignores_malformed_body:
  assumes "fetchPackageMeta w name = Inr pkgMeta"
    and "highestCompatibleVersion sv versionConstraint (Some pkgMeta) = Inr concreteVersion"
    and "http_Get w (manifest_url name concreteVersion) = Body b"
    and "unmarshal_npmPackageResponse w b = SyntaxError"
  shows "fetchPackage w name concreteVersion = Inr zero_npmPackageResponse
    \<and> resp_Dependencies zero_npmPackageResponse = []
    \<and> resolveDependencies (Suc n) sv w (NpmPackageVersion name versionConstraint [])
          versionConstraint log =
        Some (NpmPackageVersion name concreteVersion [],
              log @ [meta_url name, manifest_url name concreteVersion])"
proof -
  have fetched: "fetchPackage w name concreteVersion = Inr zero_npmPackageResponse"
    using assms(3,4) by (simp add: fetchPackage_def)
  have empty: "resp_Dependencies zero_npmPackageResponse = []"
    by (simp add: zero_npmPackageResponse_def)
  from assms(1,2) fetched empty show ?thesis
    by (simp add: resolve_Suc)
qed

theorem fetchPackage_ignores_malformed_body_witness:
  "fetchPackage garbled_world ''page'' ''1.0.0'' = Inr zero_npmPackageResponse
   \<and> resolveDependencies 1 demo_semver garbled_world
        (NpmPackageVersion ''page'' ''^1.0.0'' []) ''^1.0.0'' [] =
      Some (NpmPackageVersion ''page'' ''1.0.0'' [],
            [''https://registry.npmjs.org/page'', ''https://registry.npmjs.org/page/1.0.0''])"
  using fetchPackage_ignores_malformed_body[OF garbled_facts, of 0 "[]"]
  by (simp add: meta_url_def manifest_url_def)

subsection \<open>A node whose resolution fails\<close>

text \<open>
  Claim C6. A node whose resolution fails (its metadata cannot be fetched, no version
  is compatible, or its manifest cannot be fetched) is contained: its goroutine returns
  and leaves it without children; and when it is a dependency of the requested package,
  every dependency of that package, failed or not, ends up with exactly the tree its own
  resolution yields, and the request is answered with status 200 and the serialised
  tree. The siblings are assumed to return within the fuel, and serialisation to
  succeed.
\<close>

theorem failure_is_locally_contained:
  assumes fails: "resolution_fails sv w dn dc"
    and fresh: "lastRequest s (RequestURI r) = None"
    and name: "vars r ''package'' = Some name"
    and vc: "vars r ''version'' = Some vc"
    and meta: "fetchPackageMeta w name = Inr pkgMeta"
    and ver: "highestCompatibleVersion sv vc (Some pkgMeta) = Inr cv"
    and man: "fetchPackage w name cv = Inr npmPkg"
    and dist: "distinct (map fst (resp_Dependencies npmPkg))"
    and edge: "(dn, dc) \<in> set (resp_Dependencies npmPkg)"
    and others: "\<forall>(k, c) \<in> set (resp_Dependencies npmPkg).
                   (k, c) \<noteq> (dn, dc) \<longrightarrow> child_tree (Suc n) sv w k c \<noteq> None"
    and marshal: "\<And>t. \<exists>out. MarshalIndent w t = Inr out"
  shows "(\<exists>l. resolveDependencies (Suc n) sv w (NpmPackageVersion dn dc []) dc log =
            Some (NpmPackageVersion dn (reported_version sv w dn dc) [], log @ l))
    \<and> (\<exists>root lg out.
          packageHandler (Suc (Suc n)) sv w s r =
            Some (s\<lparr>rootPkg := Some root,
                    lastRequest := (lastRequest s)(RequestURI r \<mapsto> out)\<rparr>,
                  write_ok out, lg)
          \<and> MarshalIndent w root = Inr out
          \<and> map_of (Dependencies root) dn =
              Some (NpmPackageVersion dn (reported_version sv w dn dc) [])
          \<and> (\<forall>(k, c) \<in> set (resp_Dependencies npmPkg).
                map_of (Dependencies root) k = child_tree (Suc n) sv w k c))"
proof -
  let ?leaf = "NpmPackageVersion dn (reported_version sv w dn dc) []"
  let ?ds = "resp_Dependencies npmPkg"
  let ?pkg1 = "NpmPackageVersion name cv []"
  let ?log2 = "[meta_url name, manifest_url name cv]"
  have node: "\<exists>l. resolveDependencies (Suc n) sv w (NpmPackageVersion dn dc []) dc lg =
      Some (?leaf, lg @ l)" for lg
    by (rule failing_node_leaf[OF fails])
  then have leaf: "child_tree (Suc n) sv w dn dc = Some ?leaf"
    using child_tree_of_resolve by blast
  have all: "\<forall>(k, c) \<in> set ?ds. child_tree (Suc n) sv w k c \<noteq> None"
    using others leaf by auto
  obtain root lg where
    rng: "range_Dependencies (Suc n) sv w ?pkg1 ?ds ?log2 = Some (root, lg)"
    using range_returns[OF all] by blast
  have d0: "distinct (map fst (Dependencies ?pkg1) @ map fst ?ds)" using dist by simp
  note ch = range_children[OF d0 rng]
  have res: "resolveDependencies (Suc (Suc n)) sv w (NpmPackageVersion name vc []) vc [] =
      Some (root, lg)"
    using rng by (simp add: resolve_Suc meta ver man)
  obtain out where out: "MarshalIndent w root = Inr out" using marshal by blast
  have handler: "packageHandler (Suc (Suc n)) sv w s r =
      Some (s\<lparr>rootPkg := Some root, lastRequest := (lastRequest s)(RequestURI r \<mapsto> out)\<rparr>,
            write_ok out, lg)"
    by (simp add: packageHandler_def fresh name vc res out)
  have sib: "\<forall>(k, c) \<in> set ?ds. map_of (Dependencies root) k = child_tree (Suc n) sv w k c"
    using ch by auto
  then have "map_of (Dependencies root) dn = Some ?leaf" using edge leaf by auto
  with node handler out sib show ?thesis by blast
qed

text \<open>
  In \<open>broken_world\<close> the registry does not answer for \<open>gone\<close>: the request is served,
  \<open>gone\<close> is a leaf and its sibling \<open>leaf\<close> is resolved.
\<close>

theorem failure_is_locally_contained_witness:
  "\<exists>s1 root out lg.
     packageHandler 2 demo_semver broken_world New broken_request = Some (s1, write_ok out, lg)
     \<and> rootPkg s1 = Some root
     \<and> map_of (Dependencies root) ''gone'' = Some (NpmPackageVersion ''gone'' ''^1.0.0'' [])
     \<and> map_of (Dependencies root) ''leaf'' = Some (NpmPackageVersion ''leaf'' ''1.0.0'' [])"
proof -
  let ?ds = "[(''gone'', ''^1.0.0''), (''old'', ''^2.0.0''), (''bare'', ''^1.0.0''),
              (''leaf'', ''^1.0.0'')]"
  let ?npmPkg = "\<lparr>resp_Name = ''root'', resp_Version = ''1.0.0'', resp_Dependencies = ?ds\<rparr>"
  have dist: "distinct (map fst (resp_Dependencies ?npmPkg))" by simp
  have edge: "(''gone'', ''^1.0.0'') \<in> set (resp_Dependencies ?npmPkg)" by simp
  have others: "\<forall>(k, c) \<in> set (resp_Dependencies ?npmPkg).
      (k, c) \<noteq> (''gone'', ''^1.0.0'') \<longrightarrow>
        child_tree (Suc 0) demo_semver broken_world k c \<noteq> None"
    by (simp add: broken_children)
  have marshal: "\<exists>out. MarshalIndent broken_world t = Inr out" for t
    by (simp add: broken_world_def table_world_def)
  from failure_is_locally_contained[OF broken_facts dist edge others marshal, of "[]"]
  obtain root lg out where
    h: "packageHandler (Suc (Suc 0)) demo_semver broken_world New broken_request =
          Some (New\<lparr>rootPkg := Some root,
                  lastRequest := (lastRequest New)(RequestURI broken_request \<mapsto> out)\<rparr>,
                write_ok out, lg)"
    and gone: "map_of (Dependencies root) ''gone'' =
          Some (NpmPackageVersion ''gone''
                  (reported_version demo_semver broken_world ''gone'' ''^1.0.0'') [])"
    and sib: "\<forall>(k, c) \<in> set (resp_Dependencies ?npmPkg).
          map_of (Dependencies root) k = child_tree (Suc 0) demo_semver broken_world k c"
    by blast
  from sib have "map_of (Dependencies root) ''leaf'' =
      Some (NpmPackageVersion ''leaf'' ''1.0.0'' [])"
    by (simp add: broken_children)
  with h gone show ?thesis
    by (auto simp: broken_children numeral_2_eq_2)
qed

subsection \<open>The version field\<close>




subsection \<open>The keys of the children\<close>




subsection \<open>A package reached along two paths\<close>

text \<open>
  Claim C2: one registry fetch for each distinct (name, version), however many paths
  reach it. The code has no store of resolved nodes: the call of \<open>getCachedDeps\<close> is
  commented out as not working. In \<open>diamond_world\<close> there are four distinct packages,
  so eight distinct URLs, and the pass makes ten requests: the metadata and the manifest
  of \<open>c\<close> are each fetched twice, once for each edge that reaches \<open>c\<close>.
\<close>

theorem shared_dependency_fetched_per_edge:
  "\<exists>t lg. resolveDependencies 3 demo_semver diamond_world
             (NpmPackageVersion ''root'' ''1.0.0'' []) ''1.0.0'' [] = Some (t, lg)
     \<and> length lg = 10
     \<and> length (remdups lg) = 8
     \<and> count_list lg (meta_url ''c'') = 2
     \<and> count_list lg (manifest_url ''c'' ''1.0.0'') = 2"
  using diamond_result diamond_counts by simp

subsection \<open>A cycle\<close>

text \<open>
  Claim C3: on a graph with a cycle the pass terminates with a finite tree. The code
  has no guard (its comment asks for one): in \<open>cyclic_world\<close> every goroutine spawns
  another, so for no bound on the depth have all goroutines returned, and the handler
  never gets past \<open>wg.Wait\<close>.
\<close>

theorem cyclic_request_never_completes:
  "\<forall>fuel. packageHandler fuel demo_semver cyclic_world New cyclic_request = None"
  by (simp add: packageHandler_def New_def cyclic_request_def cycle_never_returns)

section \<open>Properties of the handler\<close>

subsection \<open>The same request again\<close>

text \<open>
  Claim C4. When a request has been answered with status 200, the bytes written are
  stored under its literal \<open>RequestURI\<close>, and any later request with the same
  \<open>RequestURI\<close> is answered with the same response without a single registry request,
  whatever the registry would answer by then; the stored state does not change.
\<close>

theorem repeated_request_served_from_cache:
  assumes first: "packageHandler fuel sv w s r = Some (s1, resp1, log1)"
    and ok: "status resp1 = Some 200"
    and same: "RequestURI r' = RequestURI r"
  shows "lastRequest s1 (RequestURI r) = Some (body resp1)
    \<and> packageHandler fuel' sv' w' s1 r' = Some (s1, resp1, [])"
proof -
  have cached: "lastRequest s1 (RequestURI r) = Some (body resp1) \<and> resp1 = write_ok (body resp1)"
    using first ok
    by (auto simp: packageHandler_def write_ok_def nothing_written_def write_500_def
          split: option.splits sum.splits)
  then have "packageHandler fuel' sv' w' s1 r' = Some (s1, write_ok (body resp1), [])"
    by (simp add: packageHandler_def same)
  with cached show ?thesis by simp
qed

text \<open>
  The second call below is given no fuel and a different registry, and still returns
  the first response.
\<close>

theorem repeated_request_served_from_cache_witness:
  "\<exists>s1 resp1 lg.
     packageHandler 2 demo_semver spec_world New spec_request = Some (s1, resp1, lg)
     \<and> length lg = 4
     \<and> body resp1 = ''root@1.2.0{leaf:leaf@1.0.0{};}''
     \<and> packageHandler 0 demo_semver garbled_world s1 spec_request = Some (s1, resp1, [])"
proof -
  let ?out = "''root@1.2.0{leaf:leaf@1.0.0{};}''"
  let ?lg = "[meta_url ''root'', manifest_url ''root'' ''1.2.0'',
          meta_url ''leaf'', manifest_url ''leaf'' ''1.0.0'']"
  obtain s1 where first:
    "packageHandler 2 demo_semver spec_world New spec_request = Some (s1, write_ok ?out, ?lg)"
    by (simp add: packageHandler_def New_def spec_request_def spec_result spec_marshal)
  have ok: "status (write_ok ?out) = Some 200" by (simp add: write_ok_def)
  have "packageHandler 0 demo_semver garbled_world s1 spec_request = Some (s1, write_ok ?out, [])"
    using repeated_request_served_from_cache[OF first ok refl,
        where fuel' = 0 and sv' = demo_semver and w' = garbled_world] by simp
  with first show ?thesis by (simp add: write_ok_def)
qed

subsection \<open>Missing request parameters\<close>

text \<open>
  When the handler returns, it has answered 200, or a route variable was missing and it
  wrote nothing, or the serialisation failed and it wrote status 500.
\<close>

lemma packageHandler_outcomes:
  assumes "packageHandler fuel sv w s r = Some (s', resp, lg)"
  shows "status resp = Some 200
    \<or> (resp = nothing_written \<and> (vars r ''package'' = None \<or> vars r ''version'' = None))
    \<or> (resp = write_500 \<and> (\<exists>root err. MarshalIndent w root = Inl err))"
  using assms
  by (auto simp: packageHandler_def write_ok_def split: option.splits sum.splits) blast


end
